theory Spec2Isabelle
  imports Complex_Main "HOL-Library.Sublist"
begin

section \<open>JavaScript numbers\<close>

text \<open>
  A JavaScript number is a finite number, one of the two infinities, or \<open>NaN\<close>.  Finite
  numbers are read as reals: rounding is left out, and so is the sign of zero (a zero
  divisor is taken as \<open>+0\<close>; the code below divides only by pixel counts, by window
  sizes, by the viewport scale and by 2).  Timestamps (\<open>Date.now()\<close>) are integers.
  Identifiers built from \<open>Date.now()\<close> and \<open>Math.random()\<close> are supplied by the caller.
\<close>

datatype jsnum = Fin real | PInf | NInf | NaN

fun js_neg :: "jsnum \<Rightarrow> jsnum" where
  "js_neg (Fin a) = Fin (- a)"
| "js_neg PInf = NInf"
| "js_neg NInf = PInf"
| "js_neg NaN = NaN"

fun js_add :: "jsnum \<Rightarrow> jsnum \<Rightarrow> jsnum" where
  "js_add NaN y = NaN"
| "js_add x NaN = NaN"
| "js_add (Fin a) (Fin b) = Fin (a + b)"
| "js_add PInf NInf = NaN"
| "js_add NInf PInf = NaN"
| "js_add PInf y = PInf"
| "js_add x PInf = PInf"
| "js_add NInf y = NInf"
| "js_add x NInf = NInf"

definition js_sub :: "jsnum \<Rightarrow> jsnum \<Rightarrow> jsnum" where
  "js_sub x y = js_add x (js_neg y)"

fun js_mul :: "jsnum \<Rightarrow> jsnum \<Rightarrow> jsnum" where
  "js_mul NaN y = NaN"
| "js_mul x NaN = NaN"
| "js_mul (Fin a) (Fin b) = Fin (a * b)"
| "js_mul (Fin a) PInf = (if a = 0 then NaN else if 0 < a then PInf else NInf)"
| "js_mul (Fin a) NInf = (if a = 0 then NaN else if 0 < a then NInf else PInf)"
| "js_mul PInf (Fin b) = (if b = 0 then NaN else if 0 < b then PInf else NInf)"
| "js_mul NInf (Fin b) = (if b = 0 then NaN else if 0 < b then NInf else PInf)"
| "js_mul PInf PInf = PInf"
| "js_mul NInf NInf = PInf"
| "js_mul PInf NInf = NInf"
| "js_mul NInf PInf = NInf"

fun js_div :: "jsnum \<Rightarrow> jsnum \<Rightarrow> jsnum" where
  "js_div NaN y = NaN"
| "js_div x NaN = NaN"
| "js_div (Fin a) (Fin b) =
     (if b \<noteq> 0 then Fin (a / b)
      else if 0 < a then PInf else if a < 0 then NInf else NaN)"
| "js_div (Fin a) PInf = Fin 0"
| "js_div (Fin a) NInf = Fin 0"
| "js_div PInf (Fin b) = (if 0 \<le> b then PInf else NInf)"
| "js_div NInf (Fin b) = (if 0 \<le> b then NInf else PInf)"
| "js_div PInf PInf = NaN"
| "js_div PInf NInf = NaN"
| "js_div NInf PInf = NaN"
| "js_div NInf NInf = NaN"

text \<open>\<open>Math.max\<close>, \<open>Math.min\<close> and \<open>Math.abs\<close>: \<open>NaN\<close> if an argument is \<open>NaN\<close>.\<close>

fun js_max :: "jsnum \<Rightarrow> jsnum \<Rightarrow> jsnum" where
  "js_max NaN y = NaN"
| "js_max x NaN = NaN"
| "js_max (Fin a) (Fin b) = Fin (max a b)"
| "js_max PInf y = PInf"
| "js_max x PInf = PInf"
| "js_max NInf y = y"
| "js_max x NInf = x"

fun js_min :: "jsnum \<Rightarrow> jsnum \<Rightarrow> jsnum" where
  "js_min NaN y = NaN"
| "js_min x NaN = NaN"
| "js_min (Fin a) (Fin b) = Fin (min a b)"
| "js_min NInf y = NInf"
| "js_min x NInf = NInf"
| "js_min PInf y = y"
| "js_min x PInf = x"

fun js_abs :: "jsnum \<Rightarrow> jsnum" where
  "js_abs (Fin a) = Fin \<bar>a\<bar>"
| "js_abs PInf = PInf"
| "js_abs NInf = PInf"
| "js_abs NaN = NaN"

text \<open>The comparisons \<open><\<close>, \<open><=\<close> and \<open>!==\<close>: every comparison with \<open>NaN\<close> is false,
  and \<open>NaN !== NaN\<close> is true.\<close>

fun js_lt :: "jsnum \<Rightarrow> jsnum \<Rightarrow> bool" where
  "js_lt NaN y = False"
| "js_lt x NaN = False"
| "js_lt (Fin a) (Fin b) = (a < b)"
| "js_lt PInf y = False"
| "js_lt x NInf = False"
| "js_lt NInf y = True"
| "js_lt x PInf = True"

fun js_le :: "jsnum \<Rightarrow> jsnum \<Rightarrow> bool" where
  "js_le NaN y = False"
| "js_le x NaN = False"
| "js_le (Fin a) (Fin b) = (a \<le> b)"
| "js_le NInf y = True"
| "js_le x PInf = True"
| "js_le PInf y = False"
| "js_le x NInf = False"

definition js_gt :: "jsnum \<Rightarrow> jsnum \<Rightarrow> bool" where
  "js_gt x y = js_lt y x"

definition js_ge :: "jsnum \<Rightarrow> jsnum \<Rightarrow> bool" where
  "js_ge x y = js_le y x"

definition js_neq :: "jsnum \<Rightarrow> jsnum \<Rightarrow> bool" where
  "js_neq x y = (x = NaN \<or> y = NaN \<or> x \<noteq> y)"


section \<open>Data model (types/canvas.ts)\<close>

text \<open>A JavaScript string is given by the bytes of its UTF-8 encoding.\<close>

record point =
  xc :: jsnum
  yc :: jsnum

record dims =
  width :: jsnum
  height :: jsnum

datatype block_type = Text | Image | Drawing | Voice

text \<open>
  \<open>content: any\<close>: a loose object.  Text blocks carry \<open>text\<close>, \<open>fontSize\<close>, \<open>color\<close>;
  image blocks carry \<open>url\<close>, \<open>originalSize\<close>.  A field that is absent is \<open>None\<close>.
\<close>

record content =
  c_text :: "string option"
  c_fontSize :: "jsnum option"
  c_color :: "string option"
  c_url :: "string option"
  c_originalSize :: "dims option"

record block =
  ident :: string
  btype :: block_type
  content :: content
  position :: point
  bsize :: dims
  selected :: bool
  locked :: bool
  visible :: bool

datatype connection_type = Straight | Curved

record connection =
  conn_id :: string
  from_id :: string
  to_id :: string
  ctype :: connection_type

section \<open>The blocks store (stores/blocksStore.ts)\<close>

record blocks_state =
  blocks :: "block list"
  selectedBlockIds :: "string set"

definition initial_blocks :: blocks_state where
  "initial_blocks = \<lparr>blocks = [], selectedBlockIds = {}\<rparr>"

definition addBlock :: "block \<Rightarrow> blocks_state \<Rightarrow> blocks_state" where
  "addBlock b st = st\<lparr>blocks := blocks st @ [b]\<rparr>"

text \<open>\<open>Partial<Block>\<close>: the fields present in an update object.\<close>

record block_updates =
  u_ident :: "string option"
  u_btype :: "block_type option"
  u_content :: "content option"
  u_position :: "point option"
  u_bsize :: "dims option"
  u_selected :: "bool option"
  u_locked :: "bool option"
  u_visible :: "bool option"

definition no_updates :: block_updates where
  "no_updates = \<lparr>u_ident = None, u_btype = None, u_content = None, u_position = None,
     u_bsize = None, u_selected = None, u_locked = None, u_visible = None\<rparr>"

definition merge_updates :: "block \<Rightarrow> block_updates \<Rightarrow> block" where
  "merge_updates b u =
     \<lparr>ident = (case u_ident u of None \<Rightarrow> ident b | Some v \<Rightarrow> v),
      btype = (case u_btype u of None \<Rightarrow> btype b | Some v \<Rightarrow> v),
      content = (case u_content u of None \<Rightarrow> content b | Some v \<Rightarrow> v),
      position = (case u_position u of None \<Rightarrow> position b | Some v \<Rightarrow> v),
      bsize = (case u_bsize u of None \<Rightarrow> bsize b | Some v \<Rightarrow> v),
      selected = (case u_selected u of None \<Rightarrow> selected b | Some v \<Rightarrow> v),
      locked = (case u_locked u of None \<Rightarrow> locked b | Some v \<Rightarrow> v),
      visible = (case u_visible u of None \<Rightarrow> visible b | Some v \<Rightarrow> v)\<rparr>"

definition updateBlock :: "string \<Rightarrow> block_updates \<Rightarrow> blocks_state \<Rightarrow> blocks_state" where
  "updateBlock i u st =
     st\<lparr>blocks := map (\<lambda>b. if ident b = i then merge_updates b u else b) (blocks st)\<rparr>"

definition deleteBlock :: "string \<Rightarrow> blocks_state \<Rightarrow> blocks_state" where
  "deleteBlock i st =
     st\<lparr>blocks := filter (\<lambda>b. ident b \<noteq> i) (blocks st),
        selectedBlockIds := Set.filter (\<lambda>bid. bid \<noteq> i) (selectedBlockIds st)\<rparr>"

definition selectBlock :: "string \<Rightarrow> bool \<Rightarrow> blocks_state \<Rightarrow> blocks_state" where
  "selectBlock i multi st =
     (let newSelected0 = (if multi then selectedBlockIds st else {});
          newSelected = (if multi \<and> i \<in> newSelected0 then newSelected0 - {i}
                         else insert i newSelected0)
      in st\<lparr>selectedBlockIds := newSelected,
            blocks := map (\<lambda>b. b\<lparr>selected := (ident b \<in> newSelected)\<rparr>) (blocks st)\<rparr>)"

definition deselectAll :: "blocks_state \<Rightarrow> blocks_state" where
  "deselectAll st =
     st\<lparr>selectedBlockIds := {},
        blocks := map (\<lambda>b. b\<lparr>selected := False\<rparr>) (blocks st)\<rparr>"

definition moveBlock :: "string \<Rightarrow> jsnum \<Rightarrow> jsnum \<Rightarrow> blocks_state \<Rightarrow> blocks_state" where
  "moveBlock i x y st =
     st\<lparr>blocks := map (\<lambda>b. if ident b = i then b\<lparr>position := \<lparr>xc = x, yc = y\<rparr>\<rparr> else b)
                       (blocks st)\<rparr>"

definition resizeBlock :: "string \<Rightarrow> jsnum \<Rightarrow> jsnum \<Rightarrow> blocks_state \<Rightarrow> blocks_state" where
  "resizeBlock i w h st =
     st\<lparr>blocks := map (\<lambda>b. if ident b = i
                              then b\<lparr>bsize := \<lparr>width = js_max (Fin 50) w, height = js_max (Fin 50) h\<rparr>\<rparr> else b)
                       (blocks st)\<rparr>"

text \<open>
  The helpers.  \<open>text || 'New Note'\<close> replaces the empty string; the identifier
  \<open>block-<Date.now()>-<random>\<close> is the parameter \<open>i\<close>.  A call that leaves the
  text out gets the default \<open>'New Note'\<close>, which is what the empty string gives too.
\<close>

definition createTextBlock :: "jsnum \<Rightarrow> jsnum \<Rightarrow> string \<Rightarrow> string \<Rightarrow> block" where
  "createTextBlock x y s i =
     \<lparr>ident = i, btype = Text,
      content = \<lparr>c_text = Some (if s = [] then ''New Note'' else s),
                 c_fontSize = Some (Fin 16), c_color = Some ''#ffffff'',
                 c_url = None, c_originalSize = None\<rparr>,
      position = \<lparr>xc = x, yc = y\<rparr>,
      bsize = \<lparr>width = js_max (Fin 200) (Fin 100), height = js_max (Fin 100) (Fin 50)\<rparr>,
      selected = False, locked = False, visible = True\<rparr>"

definition createImageBlock :: "jsnum \<Rightarrow> jsnum \<Rightarrow> string \<Rightarrow> jsnum \<Rightarrow> jsnum \<Rightarrow> string \<Rightarrow> block" where
  "createImageBlock x y url w h i =
     (let safeWidth = js_max w (Fin 50); safeHeight = js_max h (Fin 50)
      in \<lparr>ident = i, btype = Image,
          content = \<lparr>c_text = None, c_fontSize = None, c_color = None, c_url = Some url,
                     c_originalSize = Some \<lparr>width = safeWidth, height = safeHeight\<rparr>\<rparr>,
          position = \<lparr>xc = x, yc = y\<rparr>,
          bsize = \<lparr>width = safeWidth, height = safeHeight\<rparr>,
          selected = False, locked = False, visible = True\<rparr>)"

section \<open>The connections store (stores/connectionsStore.ts)\<close>

record connections_state =
  connections :: "connection list"
  connectionMode :: bool
  connectingFrom :: "string option"

definition initial_connections :: connections_state where
  "initial_connections = \<lparr>connections = [], connectionMode = False, connectingFrom = None\<rparr>"

text \<open>The identifier \<open>conn-<Date.now()>-<random>\<close> is the parameter \<open>cid\<close>.\<close>

definition connects :: "string \<Rightarrow> string \<Rightarrow> connection \<Rightarrow> bool" where
  "connects f t c = ((from_id c = f \<and> to_id c = t) \<or> (from_id c = t \<and> to_id c = f))"

definition addConnection :: "string \<Rightarrow> string \<Rightarrow> string \<Rightarrow> connections_state \<Rightarrow> connections_state" where
  "addConnection cid f t st =
     (if f = t then st
      else if list_ex (connects f t) (connections st) then st
      else st\<lparr>connections := connections st @
                   [\<lparr>conn_id = cid, from_id = f, to_id = t, ctype = Curved\<rparr>],
              connectingFrom := None,
              connectionMode := False\<rparr>)"

definition deleteConnection :: "string \<Rightarrow> connections_state \<Rightarrow> connections_state" where
  "deleteConnection i st = st\<lparr>connections := filter (\<lambda>c. conn_id c \<noteq> i) (connections st)\<rparr>"

definition setConnectionMode :: "bool \<Rightarrow> connections_state \<Rightarrow> connections_state" where
  "setConnectionMode enabled st =
     st\<lparr>connectionMode := enabled,
        connectingFrom := (if enabled then None else connectingFrom st)\<rparr>"

definition setConnectingFrom :: "string option \<Rightarrow> connections_state \<Rightarrow> connections_state" where
  "setConnectingFrom blockId st = st\<lparr>connectingFrom := blockId\<rparr>"

definition getBlockConnections :: "string \<Rightarrow> connections_state \<Rightarrow> connection list" where
  "getBlockConnections blockId st =
     filter (\<lambda>c. from_id c = blockId \<or> to_id c = blockId) (connections st)"

section \<open>The two stores together\<close>

text \<open>
  The blocks store and the connections store are two separate zustand stores.  An action
  of one store leaves the other as it is.
\<close>

record app =
  bstore :: blocks_state
  cstore :: connections_state

definition initial_app :: app where
  "initial_app = \<lparr>bstore = initial_blocks, cstore = initial_connections\<rparr>"

definition on_blocks :: "(blocks_state \<Rightarrow> blocks_state) \<Rightarrow> app \<Rightarrow> app" where
  "on_blocks f a = a\<lparr>bstore := f (bstore a)\<rparr>"

definition on_connections :: "(connections_state \<Rightarrow> connections_state) \<Rightarrow> app \<Rightarrow> app" where
  "on_connections f a = a\<lparr>cstore := f (cstore a)\<rparr>"

text \<open>
  The connection renderer (the last effect of CanvasApp, and ConnectionLayer.tsx): a
  connection is drawn only when \<open>blocks.find\<close> gives a block for each endpoint.
\<close>

definition drawn_connections :: "app \<Rightarrow> connection list" where
  "drawn_connections a =
     filter (\<lambda>c. find (\<lambda>b. ident b = from_id c) (blocks (bstore a)) \<noteq> None \<and>
                  find (\<lambda>b. ident b = to_id c) (blocks (bstore a)) \<noteq> None)
            (connections (cstore a))"

definition references :: "string \<Rightarrow> connection \<Rightarrow> bool" where
  "references i c = (from_id c = i \<or> to_id c = i)"

section \<open>Sequences of store operations\<close>

datatype store_op =
    AddText jsnum jsnum string string
  | AddImage jsnum jsnum string jsnum jsnum string
  | Select string bool
  | DeselectAll
  | Delete string
  | Move string jsnum jsnum
  | Resize string jsnum jsnum

fun apply_op :: "store_op \<Rightarrow> blocks_state \<Rightarrow> blocks_state" where
  "apply_op (AddText x y s i) st = addBlock (createTextBlock x y s i) st"
| "apply_op (AddImage x y url w h i) st = addBlock (createImageBlock x y url w h i) st"
| "apply_op (Select i multi) st = selectBlock i multi st"
| "apply_op DeselectAll st = deselectAll st"
| "apply_op (Delete i) st = deleteBlock i st"
| "apply_op (Move i x y) st = moveBlock i x y st"
| "apply_op (Resize i w h) st = resizeBlock i w h st"

fun run_ops :: "store_op list \<Rightarrow> blocks_state \<Rightarrow> blocks_state" where
  "run_ops [] st = st"
| "run_ops (p # ps) st = run_ops ps (apply_op p st)"

text \<open>
  An added block carries a new identifier: one that the selection set does not hold at
  the moment of the call.
\<close>

fun op_fresh :: "blocks_state \<Rightarrow> store_op \<Rightarrow> bool" where
  "op_fresh st (AddText x y s i) = (i \<notin> selectedBlockIds st)"
| "op_fresh st (AddImage x y url w h i) = (i \<notin> selectedBlockIds st)"
| "op_fresh st (Select i multi) = True"
| "op_fresh st DeselectAll = True"
| "op_fresh st (Delete i) = True"
| "op_fresh st (Move i x y) = True"
| "op_fresh st (Resize i w h) = True"

fun fresh_ops :: "blocks_state \<Rightarrow> store_op list \<Rightarrow> bool" where
  "fresh_ops st [] = True"
| "fresh_ops st (p # ps) = (op_fresh st p \<and> fresh_ops (apply_op p st) ps)"

definition selection_consistent :: "blocks_state \<Rightarrow> bool" where
  "selection_consistent st =
     list_all (\<lambda>b. selected b = (ident b \<in> selectedBlockIds st)) (blocks st)"

definition min_size_ok :: "blocks_state \<Rightarrow> bool" where
  "min_size_ok st =
     list_all (\<lambda>b. js_le (Fin 50) (width (bsize b)) \<and> js_le (Fin 50) (height (bsize b)))
       (blocks st)"

definition demo_ops :: "store_op list" where
  "demo_ops =
     [AddText (Fin 0) (Fin 0) ''hi'' ''a'', AddImage (Fin 5) (Fin 5) ''u'' (Fin 10) (Fin 400) ''b'',
      Select ''a'' False, Select ''b'' True, Move ''a'' (Fin 3) (Fin 4),
      Resize ''b'' (Fin 20) (Fin 20), Select ''a'' True, Delete ''b'',
      AddText (Fin 1) (Fin 1) [] ''c'', DeselectAll]"



text \<open>No size argument of the operation is \<open>NaN\<close>.\<close>

fun op_sized :: "store_op \<Rightarrow> bool" where
  "op_sized (AddText x y s i) = True"
| "op_sized (AddImage x y url w h i) = (w \<noteq> NaN \<and> h \<noteq> NaN)"
| "op_sized (Select i multi) = True"
| "op_sized DeselectAll = True"
| "op_sized (Delete i) = True"
| "op_sized (Move i x y) = True"
| "op_sized (Resize i w h) = (w \<noteq> NaN \<and> h \<noteq> NaN)"

section \<open>Pointer interaction of one rendered block (CanvasApp.tsx, the blocks effect)\<close>

text \<open>
  The blocks effect runs \<open>blocks.forEach\<close>: for every block it renders a container and
  declares the variables of one gesture closure.  \<open>cblock\<close> is the \<open>block\<close> of that
  iteration, a constant of the closure.  The three \<open>attached\<close> fields record which of the
  closure's listeners are on the viewport: \<open>handlePointerMove\<close> and \<open>handlePointerUp\<close>
  are attached when the block is rendered and detached by \<open>handlePointerUp\<close>; every
  pointer-down on a resize handle attaches one more \<open>handleResizeMove\<close> with its
  \<open>handleResizeEnd\<close>, for the corner of that handle.
\<close>

datatype handle_type = H_br | H_tl | H_tr | H_bl

record resize_start =
  rs_width :: jsnum
  rs_height :: jsnum
  rs_x :: jsnum
  rs_y :: jsnum

record closure =
  cblock :: block
  isDragging :: bool
  isResizing :: bool
  dragging :: bool
  dragStart :: point
  resizeStart :: resize_start
  lastClickTime :: int
  editing :: bool
  textarea :: "string option"
  textVisible :: bool
  move_attached :: bool
  up_attached :: bool
  resize_attached :: "handle_type list"

definition doubleClickSpeed :: int where
  "doubleClickSpeed = 300"

definition init_closure :: "block \<Rightarrow> closure" where
  "init_closure b =
     \<lparr>cblock = b, isDragging = False, isResizing = False, dragging = False,
      dragStart = \<lparr>xc = Fin 0, yc = Fin 0\<rparr>,
      resizeStart = \<lparr>rs_width = width (bsize b), rs_height = height (bsize b),
                     rs_x = Fin 0, rs_y = Fin 0\<rparr>,
      lastClickTime = 0, editing = False, textarea = None, textVisible = True,
      move_attached = True, up_attached = True, resize_attached = []\<rparr>"

record pointer_event =
  global :: point
  shiftKey :: bool
  ctrlKey :: bool
  metaKey :: bool

text \<open>
  \<open>viewport.toWorld\<close> belongs to the pixi-viewport library; the handlers take it as the
  parameter \<open>toWorld\<close>.
\<close>

subsection \<open>Editing the text of a block\<close>

text \<open>
  \<open>textarea\<close> is the value of the textarea that \<open>startEditingSystemBlock\<close> puts over the
  block, \<open>None\<close> when there is none.  \<open>textVisible\<close> is the visibility of the PIXI text,
  which \<open>renderBlock\<close> creates for blocks of type text only.
\<close>

definition text_or :: "string \<Rightarrow> string \<Rightarrow> string" where
  "text_or v d = (if v = [] then d else v)"

definition startEditingSystemBlock :: "closure \<Rightarrow> closure" where
  "startEditingSystemBlock g =
     (if editing g then g
      else g\<lparr>editing := True,
             textarea := Some (case c_text (content (cblock g)) of None \<Rightarrow> [] | Some t \<Rightarrow> t),
             textVisible := (if btype (cblock g) = Text then False else textVisible g)\<rparr>)"

definition text_update :: "closure \<Rightarrow> string \<Rightarrow> block_updates" where
  "text_update g v =
     no_updates\<lparr>u_content := Some ((content (cblock g))\<lparr>c_text := Some (text_or v '' '')\<rparr>)\<rparr>"

definition cleanup :: "closure \<Rightarrow> closure" where
  "cleanup g = g\<lparr>textarea := None, editing := False\<rparr>"

definition show_text :: "closure \<Rightarrow> closure" where
  "show_text g = (if btype (cblock g) = Text then g\<lparr>textVisible := True\<rparr> else g)"

definition saveAndExit :: "string \<Rightarrow> closure \<Rightarrow> app \<Rightarrow> closure \<times> app" where
  "saveAndExit v g a =
     (cleanup (show_text g),
      on_blocks (updateBlock (ident (cblock g)) (text_update g v)) a)"

definition cancelAndExit :: "closure \<Rightarrow> app \<Rightarrow> closure \<times> app" where
  "cancelAndExit g a = (cleanup (show_text g), a)"

text \<open>The three events of the textarea: input (the user changed the value to \<open>v\<close>),
  key-down and blur.\<close>

definition textarea_input :: "string \<Rightarrow> closure \<Rightarrow> app \<Rightarrow> closure \<times> app" where
  "textarea_input v g a =
     (case textarea g of
        None \<Rightarrow> (g, a)
      | Some old \<Rightarrow> (g\<lparr>textarea := Some v\<rparr>,
                     on_blocks (updateBlock (ident (cblock g)) (text_update g v)) a))"

definition textarea_keydown :: "string \<Rightarrow> bool \<Rightarrow> closure \<Rightarrow> app \<Rightarrow> closure \<times> app" where
  "textarea_keydown key shift g a =
     (case textarea g of
        None \<Rightarrow> (g, a)
      | Some v \<Rightarrow>
          (if key = ''Enter'' \<and> \<not> shift then saveAndExit v g a
           else if key = ''Escape'' then cancelAndExit g a
           else (g, a)))"

definition textarea_blur :: "closure \<Rightarrow> app \<Rightarrow> closure \<times> app" where
  "textarea_blur g a =
     (case textarea g of None \<Rightarrow> (g, a) | Some v \<Rightarrow> saveAndExit v g a)"

text \<open>The text that the store holds for the block of the closure.\<close>

definition stored_texts :: "closure \<Rightarrow> app \<Rightarrow> string option list" where
  "stored_texts g a =
     map (\<lambda>b. c_text (content b)) (filter (\<lambda>b. ident b = ident (cblock g)) (blocks (bstore a)))"

subsection \<open>Pointer-down on the block: connect, or select and arm a drag\<close>

definition blockContainer_pointerdown ::
  "(point \<Rightarrow> point) \<Rightarrow> string \<Rightarrow> pointer_event \<Rightarrow> closure \<Rightarrow> app \<Rightarrow> closure \<times> app" where
  "blockContainer_pointerdown toWorld cid e g a =
     (let b = cblock g in
      if shiftKey e then
        (case connectingFrom (cstore a) of
           None \<Rightarrow> (g, on_connections (setConnectingFrom (Some (ident b))) a)
         | Some src \<Rightarrow>
             if src = [] then (g, on_connections (setConnectingFrom (Some (ident b))) a)
             else if src \<noteq> ident b then
               (g, on_connections (setConnectingFrom None)
                     (on_connections (addConnection cid src (ident b)) a))
             else (g, a))
      else
        (let a' = on_blocks (selectBlock (ident b) (ctrlKey e \<or> metaKey e)) a;
             world = toWorld (global e)
         in (g\<lparr>dragStart := \<lparr>xc = js_sub (xc world) (xc (position b)),
                            yc = js_sub (yc world) (yc (position b))\<rparr>,
               isDragging := True,
               dragging := False\<rparr>, a')))"

subsection \<open>Move and up\<close>

definition handlePointerMove ::
  "(point \<Rightarrow> point) \<Rightarrow> pointer_event \<Rightarrow> closure \<Rightarrow> app \<Rightarrow> closure \<times> app" where
  "handlePointerMove toWorld e g a =
     (if isDragging g \<and> \<not> isResizing g then
        (let b = cblock g;
             world = toWorld (global e);
             newX = js_sub (xc world) (xc (dragStart g));
             newY = js_sub (yc world) (yc (dragStart g));
             g' = (if js_gt (js_abs (js_sub newX (xc (position b)))) (Fin 5) \<or>
                      js_gt (js_abs (js_sub newY (yc (position b)))) (Fin 5)
                   then g\<lparr>dragging := True\<rparr> else g)
         in if dragging g' then (g', on_blocks (moveBlock (ident b) newX newY) a)
            else (g', a))
      else (g, a))"

definition handlePointerUp :: "int \<Rightarrow> closure \<Rightarrow> closure" where
  "handlePointerUp now g =
     (if isDragging g \<or> isResizing g then
        (let wasResizing = isResizing g;
             g1 = g\<lparr>isDragging := False, isResizing := False,
                    move_attached := False, up_attached := False\<rparr>
         in if \<not> dragging g \<and> \<not> wasResizing \<and> btype (cblock g) = Text then
              (if now - lastClickTime g < doubleClickSpeed
               then (startEditingSystemBlock g1)\<lparr>lastClickTime := 0\<rparr>
               else g1\<lparr>lastClickTime := now\<rparr>)
            else g1)
      else g)"

subsection \<open>The four resize handles\<close>

definition handle_pointerdown ::
  "(point \<Rightarrow> point) \<Rightarrow> handle_type \<Rightarrow> pointer_event \<Rightarrow> closure \<Rightarrow> closure" where
  "handle_pointerdown toWorld handleType e g =
     (let b = cblock g; world = toWorld (global e)
      in g\<lparr>isResizing := True,
            isDragging := False,
            resizeStart := \<lparr>rs_width = width (bsize b), rs_height = height (bsize b),
                             rs_x = xc world, rs_y = yc world\<rparr>,
            resize_attached := resize_attached g @ [handleType]\<rparr>)"

definition handleResizeMove ::
  "(point \<Rightarrow> point) \<Rightarrow> handle_type \<Rightarrow> pointer_event \<Rightarrow> closure \<Rightarrow> app \<Rightarrow> app" where
  "handleResizeMove toWorld handleType e g a =
     (if \<not> isResizing g then a
      else
        (let b = cblock g;
             world = toWorld (global e);
             deltaX = js_sub (xc world) (rs_x (resizeStart g));
             deltaY = js_sub (yc world) (rs_y (resizeStart g));
             rw = rs_width (resizeStart g);
             rh = rs_height (resizeStart g);
             newWidth0 = (case handleType of
                 H_br \<Rightarrow> js_add rw deltaX | H_tl \<Rightarrow> js_sub rw deltaX
               | H_tr \<Rightarrow> js_add rw deltaX | H_bl \<Rightarrow> js_sub rw deltaX);
             newHeight0 = (case handleType of
                 H_br \<Rightarrow> js_add rh deltaY | H_tl \<Rightarrow> js_sub rh deltaY
               | H_tr \<Rightarrow> js_sub rh deltaY | H_bl \<Rightarrow> js_add rh deltaY);
             newX = (case handleType of
                 H_br \<Rightarrow> xc (position b) | H_tl \<Rightarrow> js_add (xc (position b)) deltaX
               | H_tr \<Rightarrow> xc (position b) | H_bl \<Rightarrow> js_add (xc (position b)) deltaX);
             newY = (case handleType of
                 H_br \<Rightarrow> yc (position b) | H_tl \<Rightarrow> js_add (yc (position b)) deltaY
               | H_tr \<Rightarrow> js_add (yc (position b)) deltaY | H_bl \<Rightarrow> yc (position b));
             newWidth = js_max (Fin 50) newWidth0;
             newHeight = js_max (Fin 50) newHeight0;
             a1 = (if js_neq newX (xc (position b)) \<or> js_neq newY (yc (position b))
                   then on_blocks (moveBlock (ident b) newX newY) a else a)
         in on_blocks (resizeBlock (ident b) newWidth newHeight) a1))"

definition handleResizeEnd :: "handle_type \<Rightarrow> closure \<Rightarrow> closure" where
  "handleResizeEnd handleType g =
     g\<lparr>isResizing := False, resize_attached := remove1 handleType (resize_attached g)\<rparr>"

subsection \<open>What the viewport delivers to the closure\<close>

text \<open>
  The viewport calls the listeners in the order in which they were attached: the
  closure's own move or up listener first, then the resize listeners.
\<close>

definition viewport_pointermove ::
  "(point \<Rightarrow> point) \<Rightarrow> pointer_event \<Rightarrow> closure \<Rightarrow> app \<Rightarrow> closure \<times> app" where
  "viewport_pointermove toWorld e g a =
     (let (g1, a1) = (if move_attached g then handlePointerMove toWorld e g a else (g, a))
      in (g1, fold (\<lambda>h s. handleResizeMove toWorld h e g1 s) (resize_attached g1) a1))"

definition viewport_pointerup :: "int \<Rightarrow> closure \<Rightarrow> closure" where
  "viewport_pointerup now g =
     (let g1 = (if up_attached g then handlePointerUp now g else g)
      in fold handleResizeEnd (resize_attached g1) g1)"


section \<open>The blocks effect: rendering, targets and the delivery of events\<close>

text \<open>
  The effect of CanvasApp that renders the blocks runs again whenever the blocks array
  or \<open>connectingFrom\<close> changes (its dependency list), and every action of the blocks
  store makes a new blocks array.  A run empties the blocks container and renders every
  block anew, each with a new closure.  The effect returns no clean-up: the closures of
  earlier runs keep the listeners they still have on the viewport, but their containers
  are no longer on the stage, so no pointer-down reaches them.  \<open>shown\<close> holds the
  closures of the last run, in the order of the blocks; \<open>retired\<close> those of earlier runs.
\<close>

record ui =
  ui_app :: app
  retired :: "closure list"
  shown :: "closure list"

definition render :: "app \<Rightarrow> closure list" where
  "render a = map init_closure (blocks (bstore a))"

definition mount :: "app \<Rightarrow> ui" where
  "mount a = \<lparr>ui_app = a, retired = [], shown = render a\<rparr>"

definition rerender :: "ui \<Rightarrow> ui" where
  "rerender u = u\<lparr>retired := retired u @ shown u, shown := render (ui_app u)\<rparr>"

subsection \<open>Which target a pointer-down has\<close>

text \<open>
  \<open>renderBlock\<close> places the container at the position of the block, gives it the hit
  area \<open>Rectangle(0, 0, width, height)\<close> and, for a selected block of type text or image,
  four square handles of side \<open>8 / scale\<close> centred on the corners (\<open>scale\<close> is
  \<open>viewport.scale.x\<close>).  A rectangle holds the points from its left and top edge up to,
  not including, its right and bottom edge.  A point outside the hit area of the
  container reaches none of its children; among the handles the one added last is
  tested first; a block rendered later lies above the earlier ones.
\<close>

definition in_hitArea :: "block \<Rightarrow> point \<Rightarrow> bool" where
  "in_hitArea b p =
     (let lx = js_sub (xc p) (xc (position b));
          ly = js_sub (yc p) (yc (position b))
      in js_gt (width (bsize b)) (Fin 0) \<and> js_gt (height (bsize b)) (Fin 0) \<and>
         js_ge lx (Fin 0) \<and> js_lt lx (width (bsize b)) \<and>
         js_ge ly (Fin 0) \<and> js_lt ly (height (bsize b)))"

definition handle_origin :: "jsnum \<Rightarrow> handle_type \<Rightarrow> block \<Rightarrow> point" where
  "handle_origin scale h b =
     (let handleSize = js_div (Fin 8) scale;
          halfHandle = js_div handleSize (Fin 2);
          w = width (bsize b);
          ht = height (bsize b)
      in case h of
           H_br \<Rightarrow> \<lparr>xc = js_sub w halfHandle, yc = js_sub ht halfHandle\<rparr>
         | H_tl \<Rightarrow> \<lparr>xc = js_neg halfHandle, yc = js_neg halfHandle\<rparr>
         | H_tr \<Rightarrow> \<lparr>xc = js_sub w halfHandle, yc = js_neg halfHandle\<rparr>
         | H_bl \<Rightarrow> \<lparr>xc = js_neg halfHandle, yc = js_sub ht halfHandle\<rparr>)"

definition in_handle :: "jsnum \<Rightarrow> block \<Rightarrow> point \<Rightarrow> handle_type \<Rightarrow> bool" where
  "in_handle scale b p h =
     (let handleSize = js_div (Fin 8) scale;
          org = handle_origin scale h b;
          lx = js_sub (xc p) (xc (position b));
          ly = js_sub (yc p) (yc (position b))
      in js_gt handleSize (Fin 0) \<and>
         js_ge lx (xc org) \<and> js_lt lx (js_add (xc org) handleSize) \<and>
         js_ge ly (yc org) \<and> js_lt ly (js_add (yc org) handleSize))"

definition has_handles :: "block \<Rightarrow> bool" where
  "has_handles b = (selected b \<and> (btype b = Text \<or> btype b = Image))"

definition hit_handle :: "jsnum \<Rightarrow> block \<Rightarrow> point \<Rightarrow> handle_type option" where
  "hit_handle scale b p =
     (if has_handles b \<and> in_hitArea b p
      then find (in_handle scale b p) [H_bl, H_tr, H_tl, H_br]
      else None)"

definition on_top :: "nat \<Rightarrow> point \<Rightarrow> closure list \<Rightarrow> bool" where
  "on_top i p gs =
     (i < length gs \<and> in_hitArea (cblock (gs ! i)) p \<and>
      list_all (\<lambda>g. \<not> in_hitArea (cblock g) p) (drop (Suc i) gs))"

subsection \<open>Pointer-down on the body or on a handle of the \<open>i\<close>-th block shown\<close>

text \<open>
  The event is delivered only if the pointer is where that target is.  A pointer-down on
  the body without shift calls \<open>selectBlock\<close>, so the effect runs again; with shift it
  runs again when \<open>connectingFrom\<close> has changed.  A pointer-down on a handle calls no
  store action.
\<close>

definition ui_block_pointerdown ::
  "(point \<Rightarrow> point) \<Rightarrow> jsnum \<Rightarrow> string \<Rightarrow> pointer_event \<Rightarrow> nat \<Rightarrow> ui \<Rightarrow> ui" where
  "ui_block_pointerdown toWorld scale cid e i u =
     (let p = toWorld (global e) in
      if on_top i p (shown u) \<and> hit_handle scale (cblock (shown u ! i)) p = None then
        (case blockContainer_pointerdown toWorld cid e (shown u ! i) (ui_app u) of
           (g', a') \<Rightarrow>
             (let u' = u\<lparr>ui_app := a', shown := (shown u)[i := g']\<rparr>
              in if shiftKey e \<and> connectingFrom (cstore a') = connectingFrom (cstore (ui_app u))
                 then u' else rerender u'))
      else u)"

definition ui_handle_pointerdown ::
  "(point \<Rightarrow> point) \<Rightarrow> jsnum \<Rightarrow> handle_type \<Rightarrow> pointer_event \<Rightarrow> nat \<Rightarrow> ui \<Rightarrow> ui" where
  "ui_handle_pointerdown toWorld scale h e i u =
     (let p = toWorld (global e) in
      if on_top i p (shown u) \<and> hit_handle scale (cblock (shown u ! i)) p = Some h
      then u\<lparr>shown := (shown u)[i := handle_pointerdown toWorld h e (shown u ! i)]\<rparr>
      else u)"

subsection \<open>Events that the viewport or a textarea delivers to every closure\<close>

fun deliver :: "(closure \<Rightarrow> app \<Rightarrow> closure \<times> app) \<Rightarrow> closure list \<Rightarrow> app \<Rightarrow> closure list \<times> app" where
  "deliver f [] a = ([], a)"
| "deliver f (g # gs) a =
     (case f g a of (g', a1) \<Rightarrow>
        (case deliver f gs a1 of (gs', a2) \<Rightarrow> (g' # gs', a2)))"

definition delivered :: "ui \<Rightarrow> closure list \<times> app \<Rightarrow> ui" where
  "delivered u r =
     (case r of (gs, a') \<Rightarrow>
        u\<lparr>ui_app := a',
          retired := take (length (retired u)) gs,
          shown := drop (length (retired u)) gs\<rparr>)"

text \<open>Whether a move makes the closure call \<open>moveBlock\<close> or \<open>resizeBlock\<close>.\<close>

definition move_writes :: "(point \<Rightarrow> point) \<Rightarrow> pointer_event \<Rightarrow> app \<Rightarrow> closure \<Rightarrow> bool" where
  "move_writes toWorld e a g =
     ((move_attached g \<and> isDragging g \<and> \<not> isResizing g \<and>
       dragging (fst (handlePointerMove toWorld e g a))) \<or>
      (isResizing g \<and> resize_attached g \<noteq> []))"

definition ui_pointermove :: "(point \<Rightarrow> point) \<Rightarrow> pointer_event \<Rightarrow> ui \<Rightarrow> ui" where
  "ui_pointermove toWorld e u =
     (let u' = delivered u (deliver (viewport_pointermove toWorld e) (retired u @ shown u) (ui_app u))
      in if list_ex (move_writes toWorld e (ui_app u)) (retired u @ shown u)
         then rerender u' else u')"

text \<open>\<open>handlePointerUp\<close> and \<open>handleResizeEnd\<close> call no store action.\<close>

definition ui_pointerup :: "int \<Rightarrow> ui \<Rightarrow> ui" where
  "ui_pointerup now u =
     u\<lparr>retired := map (viewport_pointerup now) (retired u),
       shown := map (viewport_pointerup now) (shown u)\<rparr>"




section \<open>Paste\<close>

text \<open>
  A paste event carries \<open>clipboardData\<close> or nothing.  An item answers \<open>getAsFile()\<close>
  with a file or with null; the file comes with the URL made for it and with the outcome
  of decoding it, which the handlers wait for.  The size that a decoded image reports is
  a pair of pixel counts, each of which may be zero.  \<open>html_img\<close> is the result of
  matching \<open>html_data\<close> against \<open><img ... src="..."\<close>, with the outcome of loading the URL
  found.
\<close>

datatype image_load = Loaded nat nat | LoadFailed

record clipboard_item =
  item_kind :: string
  item_type :: string
  as_file :: "(string \<times> image_load) option"

record clipboard =
  clip_items :: "clipboard_item list"
  text_data :: string
  html_data :: string
  html_img :: "(string \<times> image_load) option"

definition is_image_item :: "clipboard_item \<Rightarrow> bool" where
  "is_image_item it = prefix ''image/'' (item_type it)"

subsection \<open>The paste handler that creates blocks (the CanvasApp that calls addBlock on paste)\<close>

text \<open>\<open>rect\<close> is the bounding rectangle of the canvas.\<close>

definition handlePaste :: "(point \<Rightarrow> point) \<Rightarrow> dims \<Rightarrow> string \<Rightarrow> clipboard option \<Rightarrow> app \<Rightarrow> app" where
  "handlePaste toWorld rect i ev a =
     (let its = (case ev of None \<Rightarrow> [] | Some cb \<Rightarrow> clip_items cb) in
      case find is_image_item its of
        Some imageItem \<Rightarrow>
          (case as_file imageItem of
             None \<Rightarrow> a
           | Some (url, ld) \<Rightarrow>
               (let worldPos = toWorld \<lparr>xc = js_div (width rect) (Fin 2),
                                       yc = js_div (height rect) (Fin 2)\<rparr> in
                case ld of
                  LoadFailed \<Rightarrow> a
                | Loaded iw ih \<Rightarrow>
                    (let aspectRatio = js_div (Fin (real iw)) (Fin (real ih));
                         w = Fin 300;
                         h = js_div w aspectRatio;
                         imageBlock = createImageBlock (js_sub (xc worldPos) (js_div w (Fin 2)))
                                        (js_sub (yc worldPos) (js_div h (Fin 2))) url w h i
                     in on_blocks (addBlock imageBlock) a)))
      | None \<Rightarrow>
          (let txt = (case ev of None \<Rightarrow> [] | Some cb \<Rightarrow> text_data cb) in
           if txt \<noteq> [] then
             (let worldPos = toWorld \<lparr>xc = js_div (width rect) (Fin 2),
                                     yc = js_div (height rect) (Fin 2)\<rparr>;
                  textBlock = createTextBlock (js_sub (xc worldPos) (Fin 100))
                                (js_sub (yc worldPos) (Fin 50)) txt i
              in on_blocks (addBlock textBlock) a)
           else a))"

subsection \<open>The paste handler that adds sprites (the CanvasApp with resize handles on four corners)\<close>

text \<open>
  This handler builds a PIXI sprite or a text container and adds it to the viewport; it
  calls no action of a store.  \<open>window\<close> is \<open>(innerWidth, innerHeight)\<close>.  A sprite is
  kept with its position, its scale and the size of its texture; a text box with its
  position, its text and its size.
\<close>

datatype pasted =
    ImageSprite point jsnum nat nat
  | TextBox point string jsnum jsnum

record scene =
  stores :: app
  viewport_children :: "pasted list"

definition make_sprite :: "(point \<Rightarrow> point) \<Rightarrow> dims \<Rightarrow> nat \<Rightarrow> nat \<Rightarrow> pasted" where
  "make_sprite toWorld window tw th =
     (let worldPos = toWorld \<lparr>xc = js_div (width window) (Fin 2),
                             yc = js_div (height window) (Fin 2)\<rparr>;
          maxDim = js_mul (js_min (width window) (height window)) (Fin (8 / 10));
          scale = js_min (js_min (js_div maxDim (Fin (real tw))) (js_div maxDim (Fin (real th))))
                    (Fin 1)
      in ImageSprite worldPos scale tw th)"

text \<open>Method 1: the first file item of an image type that yields a file and decodes.
  The result is the flag \<open>imageFound\<close> and what the loop returned with, if it did.\<close>

datatype 'a outcome = Returned 'a | Fell_through

fun paste_files ::
  "(point \<Rightarrow> point) \<Rightarrow> dims \<Rightarrow> clipboard_item list \<Rightarrow> bool \<Rightarrow> bool \<times> pasted outcome" where
  "paste_files toWorld window [] imageFound = (imageFound, Fell_through)"
| "paste_files toWorld window (it # its) imageFound =
     (if item_kind it = ''file'' \<and> is_image_item it then
        (case as_file it of
           None \<Rightarrow> paste_files toWorld window its True
         | Some (url, LoadFailed) \<Rightarrow> paste_files toWorld window its True
         | Some (url, Loaded tw th) \<Rightarrow> (True, Returned (make_sprite toWorld window tw th)))
      else paste_files toWorld window its imageFound)"

text \<open>
  \<open>String.prototype.trim\<close> removes white space and line terminators: the code points
  9 to 13, 32, 160, 5760, 8192 to 8202, 8232, 8233, 8239, 8287, 12288 and 65279, here
  in UTF-8.  A text is blank when trimming leaves nothing.
\<close>

definition white_space :: "string list" where
  "white_space =
     [[CHR 0x09], [CHR 0x0A], [CHR 0x0B], [CHR 0x0C], [CHR 0x0D], [CHR 0x20],
      [CHR 0xC2, CHR 0xA0],
      [CHR 0xE1, CHR 0x9A, CHR 0x80],
      [CHR 0xE2, CHR 0x80, CHR 0x80], [CHR 0xE2, CHR 0x80, CHR 0x81],
      [CHR 0xE2, CHR 0x80, CHR 0x82], [CHR 0xE2, CHR 0x80, CHR 0x83],
      [CHR 0xE2, CHR 0x80, CHR 0x84], [CHR 0xE2, CHR 0x80, CHR 0x85],
      [CHR 0xE2, CHR 0x80, CHR 0x86], [CHR 0xE2, CHR 0x80, CHR 0x87],
      [CHR 0xE2, CHR 0x80, CHR 0x88], [CHR 0xE2, CHR 0x80, CHR 0x89],
      [CHR 0xE2, CHR 0x80, CHR 0x8A],
      [CHR 0xE2, CHR 0x80, CHR 0xA8], [CHR 0xE2, CHR 0x80, CHR 0xA9],
      [CHR 0xE2, CHR 0x80, CHR 0xAF],
      [CHR 0xE2, CHR 0x81, CHR 0x9F],
      [CHR 0xE3, CHR 0x80, CHR 0x80],
      [CHR 0xEF, CHR 0xBB, CHR 0xBF]]"

fun blank_upto :: "nat \<Rightarrow> string \<Rightarrow> bool" where
  "blank_upto 0 s = (s = [])"
| "blank_upto (Suc n) s =
     (s = [] \<or> (case find (\<lambda>p. prefix p s) white_space of
                   None \<Rightarrow> False
                 | Some p \<Rightarrow> blank_upto n (drop (length p) s)))"

definition blank :: "string \<Rightarrow> bool" where
  "blank s = blank_upto (length s) s"

definition paste_html :: "(point \<Rightarrow> point) \<Rightarrow> dims \<Rightarrow> clipboard \<Rightarrow> pasted outcome" where
  "paste_html toWorld window cb =
     (if html_data cb = [] then Fell_through
      else
        (case html_img cb of
           None \<Rightarrow> Fell_through
         | Some (url, LoadFailed) \<Rightarrow> Fell_through
         | Some (url, Loaded tw th) \<Rightarrow>
             (if url = [] then Fell_through
              else Returned (make_sprite toWorld window tw th))))"

definition paste_text :: "(point \<Rightarrow> point) \<Rightarrow> dims \<Rightarrow> clipboard \<Rightarrow> pasted outcome" where
  "paste_text toWorld window cb =
     (if text_data cb \<noteq> [] \<and> \<not> blank (text_data cb) then
        Returned (TextBox (toWorld \<lparr>xc = js_div (width window) (Fin 2),
                                     yc = js_div (height window) (Fin 2)\<rparr>)
                    (text_data cb) (Fin 200) (Fin 100))
      else Fell_through)"

definition paste_result :: "(point \<Rightarrow> point) \<Rightarrow> dims \<Rightarrow> clipboard \<Rightarrow> pasted outcome" where
  "paste_result toWorld window cb =
     (case paste_files toWorld window (clip_items cb) False of
        (imageFound, Returned sp) \<Rightarrow> Returned sp
      | (imageFound, Fell_through) \<Rightarrow>
          if imageFound then Fell_through
          else (case paste_html toWorld window cb of
                  Returned sp \<Rightarrow> Returned sp
                | Fell_through \<Rightarrow> paste_text toWorld window cb))"

definition handlePaste_sprites ::
  "(point \<Rightarrow> point) \<Rightarrow> dims \<Rightarrow> clipboard option \<Rightarrow> scene \<Rightarrow> scene" where
  "handlePaste_sprites toWorld window ev sc =
     (case ev of
        None \<Rightarrow> sc
      | Some cb \<Rightarrow>
          (case paste_result toWorld window cb of
             Returned sp \<Rightarrow> sc\<lparr>viewport_children := viewport_children sc @ [sp]\<rparr>
           | Fell_through \<Rightarrow> sc))"

section \<open>Measurements and sample data used in the statements\<close>

definition has_block :: "string \<Rightarrow> blocks_state \<Rightarrow> bool" where
  "has_block i st = list_ex (\<lambda>b. ident b = i) (blocks st)"

definition blocks_with :: "string \<Rightarrow> blocks_state \<Rightarrow> block list" where
  "blocks_with i st = filter (\<lambda>b. ident b = i) (blocks st)"


definition editing_closures :: "ui \<Rightarrow> closure list" where
  "editing_closures u = filter editing (retired u @ shown u)"

text \<open>A viewport of scale \<open>k\<close> whose origin is drawn at the screen point \<open>(ox, oy)\<close>.\<close>

definition view_toWorld :: "real \<Rightarrow> real \<Rightarrow> real \<Rightarrow> point \<Rightarrow> point" where
  "view_toWorld k ox oy p =
     \<lparr>xc = js_div (js_sub (xc p) (Fin ox)) (Fin k), yc = js_div (js_sub (yc p) (Fin oy)) (Fin k)\<rparr>"

text \<open>The identity viewport.\<close>

definition plain_view :: "point \<Rightarrow> point" where
  "plain_view = view_toWorld 1 0 0"

definition pointer_at :: "real \<Rightarrow> real \<Rightarrow> pointer_event" where
  "pointer_at x y =
     \<lparr>global = \<lparr>xc = Fin x, yc = Fin y\<rparr>, shiftKey = False, ctrlKey = False, metaKey = False\<rparr>"

definition shift_pointer_at :: "real \<Rightarrow> real \<Rightarrow> pointer_event" where
  "shift_pointer_at x y =
     \<lparr>global = \<lparr>xc = Fin x, yc = Fin y\<rparr>, shiftKey = True, ctrlKey = False, metaKey = False\<rparr>"

text \<open>Two notes, the first one selected; the same with a connection between them.\<close>

definition note_a :: block where
  "note_a = createTextBlock (Fin 0) (Fin 0) ''A'' ''a''"

definition note_b :: block where
  "note_b = createTextBlock (Fin 300) (Fin 0) ''B'' ''b''"

definition two_blocks :: app where
  "two_blocks =
     on_blocks (run_ops [AddText (Fin 0) (Fin 0) ''A'' ''a'', AddText (Fin 300) (Fin 0) ''B'' ''b'',
                         Select ''a'' False])
       initial_app"

definition two_notes :: app where
  "two_notes = on_connections (addConnection ''c1'' ''a'' ''b'') two_blocks"

text \<open>A selected note at the origin, resized to 100 by 100.\<close>

definition square_note :: block where
  "square_note =
     (createTextBlock (Fin 0) (Fin 0) ''n'' ''s'')\<lparr>bsize := \<lparr>width = Fin 100, height = Fin 100\<rparr>,
                                                    selected := True\<rparr>"

definition square_app :: app where
  "square_app =
     on_blocks (run_ops [AddText (Fin 0) (Fin 0) ''n'' ''s'', Resize ''s'' (Fin 100) (Fin 100),
                         Select ''s'' False])
       initial_app"

text \<open>A note with the text hello, and the store that holds it.\<close>

definition hello_note :: block where
  "hello_note = createTextBlock (Fin 0) (Fin 0) ''hello'' ''t''"

definition hello_app :: app where
  "hello_app = on_blocks (addBlock hello_note) initial_app"

text \<open>The corner that a resize from the handle \<open>h\<close> must leave where it is.\<close>

definition far_corner :: "handle_type \<Rightarrow> block \<Rightarrow> point" where
  "far_corner h b =
     (case h of
        H_tl \<Rightarrow> \<lparr>xc = js_add (xc (position b)) (width (bsize b)),
                  yc = js_add (yc (position b)) (height (bsize b))\<rparr>
      | H_tr \<Rightarrow> \<lparr>xc = xc (position b), yc = js_add (yc (position b)) (height (bsize b))\<rparr>
      | H_bl \<Rightarrow> \<lparr>xc = js_add (xc (position b)) (width (bsize b)), yc = yc (position b)\<rparr>
      | H_br \<Rightarrow> \<lparr>xc = xc (position b), yc = yc (position b)\<rparr>)"

text \<open>The two notes after a shift pointer-down on the first one.\<close>

definition connecting_from_a :: app where
  "connecting_from_a =
     snd (blockContainer_pointerdown plain_view ''c2'' (shift_pointer_at 10 10)
            (init_closure note_a) two_blocks)"

text \<open>The centre of a block, as the connection renderer computes it.\<close>

definition block_center :: "block \<Rightarrow> point" where
  "block_center b = \<lparr>xc = js_add (xc (position b)) (js_div (width (bsize b)) (Fin 2)),
                      yc = js_add (yc (position b)) (js_div (height (bsize b)) (Fin 2))\<rparr>"

text \<open>A canvas of 1000 by 800 pixels and clipboards: a file that is no image, an image
  of 600 by 300 pixels, an image that reports no width and no height, and a text.\<close>

definition canvas_rect :: dims where
  "canvas_rect = \<lparr>width = Fin 1000, height = Fin 800\<rparr>"

definition pdf_clipboard :: clipboard where
  "pdf_clipboard =
     \<lparr>clip_items = [\<lparr>item_kind = ''file'', item_type = ''application/pdf'', as_file = None\<rparr>],
      text_data = [], html_data = [], html_img = None\<rparr>"

definition image_clipboard :: clipboard where
  "image_clipboard =
     \<lparr>clip_items = [\<lparr>item_kind = ''file'', item_type = ''image/png'',
                       as_file = Some (''blob:1'', Loaded 600 300)\<rparr>],
      text_data = [], html_data = [], html_img = None\<rparr>"

definition empty_image_clipboard :: clipboard where
  "empty_image_clipboard =
     \<lparr>clip_items = [\<lparr>item_kind = ''file'', item_type = ''image/svg+xml'',
                       as_file = Some (''blob:2'', Loaded 0 0)\<rparr>],
      text_data = [], html_data = [], html_img = None\<rparr>"

definition text_clipboard :: clipboard where
  "text_clipboard =
     \<lparr>clip_items = [\<lparr>item_kind = ''string'', item_type = ''text/plain'', as_file = None\<rparr>],
      text_data = ''remember'', html_data = [], html_img = None\<rparr>"

subsection \<open>Runs of the interface\<close>

text \<open>A time of day in milliseconds since 1970, as \<open>Date.now()\<close> gives it.\<close>

definition click_time :: int where
  "click_time = 1700000000000"

text \<open>The square note is shown.  Its bottom-right handle is clicked without a move; then
  the pointer goes down on the body at (50, 50) and moves to (80, 50).\<close>

definition handle_clicked :: ui where
  "handle_clicked =
     ui_pointerup click_time
       (ui_handle_pointerdown plain_view (Fin 1) H_br (pointer_at 98 98) 0 (mount square_app))"

definition drag_armed :: ui where
  "drag_armed = ui_block_pointerdown plain_view (Fin 1) ''c'' (pointer_at 50 50) 0 handle_clicked"

definition drag_moved :: ui where
  "drag_moved = ui_pointermove plain_view (pointer_at 80 50) drag_armed"

text \<open>The same drag right after the square note is shown.\<close>

definition fresh_drag_moved :: ui where
  "fresh_drag_moved =
     ui_pointermove plain_view (pointer_at 80 50)
       (ui_block_pointerdown plain_view (Fin 1) ''c'' (pointer_at 50 50) 0 (mount square_app))"

text \<open>The hello note is shown and clicked twice at (50, 50), 150 ms apart.\<close>

definition first_click :: ui where
  "first_click =
     ui_pointerup click_time
       (ui_block_pointerdown plain_view (Fin 1) ''c'' (pointer_at 50 50) 0 (mount hello_app))"

definition second_click :: ui where
  "second_click =
     ui_pointerup (click_time + 150)
       (ui_block_pointerdown plain_view (Fin 1) ''c'' (pointer_at 50 50) 0 first_click)"




text \<open>The square note is shown and its top-left handle is pressed at (0, 0); the pointer
  moves to (70, 0), or to (20, 10).\<close>

definition corner_pressed :: ui where
  "corner_pressed = ui_handle_pointerdown plain_view (Fin 1) H_tl (pointer_at 0 0) 0 (mount square_app)"

definition corner_dragged :: ui where
  "corner_dragged = ui_pointermove plain_view (pointer_at 70 0) corner_pressed"

definition corner_example :: ui where
  "corner_example = ui_pointermove plain_view (pointer_at 20 10) corner_pressed"

section \<open>Properties of the blocks store\<close>

lemma selection_consistent_selectBlock: "selection_consistent (selectBlock i multi st)"
  by (simp add: selection_consistent_def selectBlock_def Let_def list_all_iff)

lemma selection_consistent_deselectAll: "selection_consistent (deselectAll st)"
  by (simp add: selection_consistent_def deselectAll_def list_all_iff)

lemma selection_consistent_apply_op:
  assumes "selection_consistent st" and "op_fresh st p"
  shows "selection_consistent (apply_op p st)"
proof (cases p)
  case (AddText x y s i)
  with assms show ?thesis
    by (simp add: selection_consistent_def addBlock_def createTextBlock_def)
next
  case (AddImage x y url w h i)
  with assms show ?thesis
    by (simp add: selection_consistent_def addBlock_def createImageBlock_def Let_def)
next
  case (Select i multi)
  then show ?thesis by (simp add: selection_consistent_selectBlock)
next
  case DeselectAll
  then show ?thesis by (simp add: selection_consistent_deselectAll)
next
  case (Delete i)
  with assms(1) show ?thesis
    by (auto simp: selection_consistent_def deleteBlock_def list_all_iff)
next
  case (Move i x y)
  with assms(1) show ?thesis
    by (auto simp: selection_consistent_def moveBlock_def list_all_iff)
next
  case (Resize i w h)
  with assms(1) show ?thesis
    by (auto simp: selection_consistent_def resizeBlock_def list_all_iff)
qed

lemma selection_consistent_run_ops:
  "selection_consistent st \<Longrightarrow> fresh_ops st ps \<Longrightarrow> selection_consistent (run_ops ps st)"
proof (induction ps arbitrary: st)
  case Nil
  then show ?case by simp
next
  case (Cons p ps)
  then show ?case by (simp add: selection_consistent_apply_op)
qed

lemma deleteBlock_gone:
  "\<not> has_block i (deleteBlock i st) \<and> i \<notin> selectedBlockIds (deleteBlock i st)"
  by (simp add: has_block_def deleteBlock_def list_ex_iff)

lemma demo_ops_fresh: "fresh_ops initial_blocks demo_ops"
  by (simp add: demo_ops_def initial_blocks_def addBlock_def createTextBlock_def
      createImageBlock_def selectBlock_def deselectAll_def deleteBlock_def moveBlock_def
      resizeBlock_def Let_def)

text \<open>
  C10, as stated, fails.  A block made by createTextBlock is added, its identifier is
  selected, and the same block is added once more: the second copy has \<open>selected = false\<close>
  while its identifier is in \<open>selectedBlockIds\<close>.
\<close>

theorem C10_counterexample:
  "\<not> selection_consistent
        (run_ops [AddText (Fin 0) (Fin 0) ''hi'' ''a'', Select ''a'' False,
                  AddText (Fin 0) (Fin 0) ''hi'' ''a''] initial_blocks)"
  by (simp add: selection_consistent_def initial_blocks_def addBlock_def createTextBlock_def
      selectBlock_def Let_def)

text \<open>
  C10, amended.  Starting from the empty store, after any sequence of addBlock (of a block
  made by createTextBlock or createImageBlock whose identifier is not in the selection
  set at that moment), selectBlock, deselectAll, deleteBlock, moveBlock and resizeBlock,
  the \<open>selected\<close> flag of every block equals the membership of its identifier in
  \<open>selectedBlockIds\<close>.  selectBlock and deselectAll establish this from any store, since
  they rewrite every flag from the new set, and deleteBlock removes the identifier from
  the blocks and from the set.
\<close>

theorem C10_selection_consistent:
  assumes "fresh_ops initial_blocks ps"
  shows "selection_consistent (run_ops ps initial_blocks)
       \<and> selection_consistent (selectBlock i multi st)
       \<and> selection_consistent (deselectAll st)
       \<and> \<not> has_block i (deleteBlock i st) \<and> i \<notin> selectedBlockIds (deleteBlock i st)"
proof -
  have "selection_consistent initial_blocks"
    by (simp add: selection_consistent_def initial_blocks_def)
  from this assms have "selection_consistent (run_ops ps initial_blocks)"
    by (rule selection_consistent_run_ops)
  then show ?thesis
    by (simp add: selection_consistent_selectBlock selection_consistent_deselectAll
        deleteBlock_gone)
qed

theorem C10_selection_consistent_witness:
  "fresh_ops initial_blocks demo_ops
   \<and> selection_consistent (run_ops demo_ops initial_blocks)
   \<and> selection_consistent (selectBlock ''a'' True (run_ops demo_ops initial_blocks))
   \<and> \<not> has_block ''a'' (deleteBlock ''a'' (run_ops demo_ops initial_blocks))"
  using C10_selection_consistent [OF demo_ops_fresh, of "''a''" True "run_ops demo_ops initial_blocks"]
    demo_ops_fresh
  by simp

lemma two_blocks_eval:
  "two_blocks =
     \<lparr>bstore = \<lparr>blocks = [note_a\<lparr>selected := True\<rparr>, note_b], selectedBlockIds = {''a''}\<rparr>,
      cstore = initial_connections\<rparr>"
  by (simp add: two_blocks_def on_blocks_def initial_app_def initial_blocks_def
      addBlock_def note_a_def note_b_def createTextBlock_def selectBlock_def Let_def)

lemma two_notes_eval:
  "two_notes =
     \<lparr>bstore = \<lparr>blocks = [note_a\<lparr>selected := True\<rparr>, note_b], selectedBlockIds = {''a''}\<rparr>,
      cstore = \<lparr>connections = [\<lparr>conn_id = ''c1'', from_id = ''a'', to_id = ''b'', ctype = Curved\<rparr>],
                  connectionMode = False, connectingFrom = None\<rparr>\<rparr>"
  by (simp add: two_notes_def two_blocks_eval on_connections_def initial_connections_def
      addConnection_def connects_def)

text \<open>
  C1, as stated, fails: deleteBlock is an action of the blocks store and does not reach
  the connections store.  With two notes \<open>a\<close> and \<open>b\<close> and a connection between them,
  the connection is still in the connections store after \<open>deleteBlock a\<close>.
\<close>

theorem C1_counterexample:
  "has_block ''a'' (bstore two_notes)
   \<and> connections (cstore (on_blocks (deleteBlock ''a'') two_notes))
       = [\<lparr>conn_id = ''c1'', from_id = ''a'', to_id = ''b'', ctype = Curved\<rparr>]"
  by (simp add: two_notes_eval on_blocks_def has_block_def note_a_def createTextBlock_def)

text \<open>
  C1, amended.  \<open>deleteBlock i\<close> removes every block whose identifier is \<open>i\<close> and keeps
  the others, and removes \<open>i\<close> from the selection set.  It leaves the connections store as
  it is; a connection that references \<open>i\<close> stays in that store, but the next render draws
  no connection that references \<open>i\<close>, because the connection renderer skips a connection
  when one of its endpoints is not among the blocks.
\<close>

theorem C1_deleteBlock:
  "blocks (bstore (on_blocks (deleteBlock i) a)) = filter (\<lambda>b. ident b \<noteq> i) (blocks (bstore a))
   \<and> \<not> has_block i (bstore (on_blocks (deleteBlock i) a))
   \<and> selectedBlockIds (bstore (on_blocks (deleteBlock i) a)) = selectedBlockIds (bstore a) - {i}
   \<and> cstore (on_blocks (deleteBlock i) a) = cstore a
   \<and> \<not> list_ex (references i) (drawn_connections (on_blocks (deleteBlock i) a))"
proof -
  have gone: "find (\<lambda>b. ident b = i) (filter (\<lambda>b. ident b \<noteq> i) bs) = None" for bs :: "block list"
    by (simp add: find_None_iff)
  have "\<not> list_ex (references i) (drawn_connections (on_blocks (deleteBlock i) a))"
    using gone
    by (auto simp: list_ex_iff drawn_connections_def references_def on_blocks_def deleteBlock_def)
  moreover have "selectedBlockIds (bstore (on_blocks (deleteBlock i) a)) = selectedBlockIds (bstore a) - {i}"
    by (auto simp: on_blocks_def deleteBlock_def)
  ultimately show ?thesis
    by (simp add: on_blocks_def deleteBlock_gone) (simp add: deleteBlock_def)
qed

text \<open>
  C3, as stated, fails: no path of block creation raises an error.  createImageBlock
  called with width \<open>-5\<close> and height \<open>0\<close> returns a block of size 50 by 50, and addBlock
  stores it.
\<close>

theorem C3_counterexample:
  "bsize (createImageBlock (Fin 0) (Fin 0) ''u'' (Fin (- 5)) (Fin 0) ''i'')
     = \<lparr>width = Fin 50, height = Fin 50\<rparr>
   \<and> blocks (addBlock (createImageBlock (Fin 0) (Fin 0) ''u'' (Fin (- 5)) (Fin 0) ''i'') initial_blocks)
       = [createImageBlock (Fin 0) (Fin 0) ''u'' (Fin (- 5)) (Fin 0) ''i'']"
  by (simp add: createImageBlock_def addBlock_def initial_blocks_def Let_def)

lemma floor_left: "w \<noteq> NaN \<Longrightarrow> js_le (Fin 50) (js_max w (Fin 50))"
  by (cases w) simp_all

lemma floor_right: "w \<noteq> NaN \<Longrightarrow> js_le (Fin 50) (js_max (Fin 50) w)"
  by (cases w) simp_all

lemma min_size_ok_apply_op:
  assumes "min_size_ok st" and "op_sized p"
  shows "min_size_ok (apply_op p st)"
proof (cases p)
  case (AddText x y s i)
  with assms show ?thesis
    by (simp add: min_size_ok_def addBlock_def createTextBlock_def)
next
  case (AddImage x y url w h i)
  with assms show ?thesis
    by (simp add: min_size_ok_def addBlock_def createImageBlock_def Let_def floor_left)
next
  case (Select i multi)
  with assms show ?thesis
    by (auto simp: min_size_ok_def selectBlock_def Let_def list_all_iff)
next
  case DeselectAll
  with assms show ?thesis
    by (auto simp: min_size_ok_def deselectAll_def list_all_iff)
next
  case (Delete i)
  with assms show ?thesis
    by (auto simp: min_size_ok_def deleteBlock_def list_all_iff)
next
  case (Move i x y)
  with assms show ?thesis
    by (auto simp: min_size_ok_def moveBlock_def list_all_iff)
next
  case (Resize i w h)
  with assms show ?thesis
    by (auto simp: min_size_ok_def resizeBlock_def list_all_iff floor_right)
qed

lemma min_size_ok_run_ops:
  "min_size_ok st \<Longrightarrow> list_all op_sized ps \<Longrightarrow> min_size_ok (run_ops ps st)"
  by (induction ps arbitrary: st) (simp_all add: min_size_ok_apply_op)

lemma demo_ops_sized: "list_all op_sized demo_ops"
  by (simp add: demo_ops_def)

text \<open>
  C3, amended.  Block creation never fails, whatever numbers are given as the size,
  non-positive ones included.  createImageBlock gives the block the size
  \<open>(Math.max(width, 50), Math.max(height, 50))\<close>: a component that is not \<open>NaN\<close> is raised
  to at least 50, and a component that is \<open>NaN\<close> stays \<open>NaN\<close>.  createTextBlock gives the
  size 200 by 100, and addBlock appends the block.  So after any sequence of helper
  creations and store operations in which no size argument is \<open>NaN\<close>, every block in the
  store has width and height of at least 50.
\<close>

theorem C3_create_clamps:
  "bsize (createImageBlock x y url w h i) = \<lparr>width = js_max w (Fin 50), height = js_max h (Fin 50)\<rparr>
   \<and> (w \<noteq> NaN \<longrightarrow> js_le (Fin 50) (width (bsize (createImageBlock x y url w h i))))
   \<and> (h \<noteq> NaN \<longrightarrow> js_le (Fin 50) (height (bsize (createImageBlock x y url w h i))))
   \<and> width (bsize (createImageBlock x y url NaN h i)) = NaN
   \<and> height (bsize (createImageBlock x y url w NaN i)) = NaN
   \<and> bsize (createTextBlock x y s i) = \<lparr>width = Fin 200, height = Fin 100\<rparr>
   \<and> blocks (addBlock b st) = blocks st @ [b]
   \<and> (list_all op_sized ps \<longrightarrow> min_size_ok (run_ops ps initial_blocks))"
proof -
  have "min_size_ok initial_blocks" by (simp add: min_size_ok_def initial_blocks_def)
  then have "list_all op_sized ps \<longrightarrow> min_size_ok (run_ops ps initial_blocks)"
    by (simp add: min_size_ok_run_ops)
  then show ?thesis
    by (simp add: createImageBlock_def createTextBlock_def addBlock_def Let_def floor_left)
qed

theorem C3_create_clamps_witness:
  "Fin (- 5) \<noteq> NaN \<and> Fin 0 \<noteq> NaN \<and> list_all op_sized demo_ops
   \<and> bsize (createImageBlock (Fin 10) (Fin 20) ''u'' (Fin (- 5)) (Fin 0) ''i'')
       = \<lparr>width = Fin 50, height = Fin 50\<rparr>
   \<and> js_le (Fin 50) (width (bsize (createImageBlock (Fin 10) (Fin 20) ''u'' (Fin (- 5)) (Fin 0) ''i'')))
   \<and> js_le (Fin 50) (height (bsize (createImageBlock (Fin 10) (Fin 20) ''u'' (Fin (- 5)) (Fin 0) ''i'')))
   \<and> min_size_ok (run_ops demo_ops initial_blocks)"
  using C3_create_clamps [where x = "Fin 10" and y = "Fin 20" and url = "''u''" and w = "Fin (- 5)"
      and h = "Fin 0" and i = "''i''" and ps = demo_ops]
    demo_ops_sized
  by simp

section \<open>The connect gesture\<close>

lemma first_shift_down:
  "blockContainer_pointerdown plain_view ''c2'' (shift_pointer_at 10 10) (init_closure note_a) two_blocks
   = (init_closure note_a, on_connections (setConnectingFrom (Some ''a'')) two_blocks)"
  by (simp add: blockContainer_pointerdown_def shift_pointer_at_def init_closure_def
      two_blocks_eval initial_connections_def note_a_def createTextBlock_def Let_def)

lemma connecting_from_a_eval:
  "connecting_from_a = two_blocks\<lparr>cstore := initial_connections\<lparr>connectingFrom := Some ''a''\<rparr>\<rparr>"
  unfolding connecting_from_a_def first_shift_down
  by (simp add: on_connections_def setConnectingFrom_def two_blocks_eval)

text \<open>
  C4, as stated, fails in its second half.  After a shift pointer-down on note \<open>a\<close> the
  store has \<open>connectingFrom = a\<close>; a second shift pointer-down on the same note changes
  nothing: \<open>connectingFrom\<close> is still \<open>a\<close>, so the gesture is not cancelled.
\<close>

theorem C4_counterexample:
  "connectingFrom (cstore connecting_from_a) = Some ''a''
   \<and> blockContainer_pointerdown plain_view ''c3'' (shift_pointer_at 20 20) (init_closure note_a)
        connecting_from_a = (init_closure note_a, connecting_from_a)"
  by (simp add: connecting_from_a_eval blockContainer_pointerdown_def shift_pointer_at_def
      init_closure_def note_a_def createTextBlock_def Let_def)

text \<open>
  C4, amended.  In the connect gesture (shift held at pointer-down), while
  \<open>connectingFrom\<close> holds a source block id \<open>src\<close>: a pointer-down on a different block
  clears \<open>connectingFrom\<close> and leaves a connection between the two blocks in the store,
  appended as \<open>src \<rightarrow> block\<close> unless one exists already in either direction; it starts no
  drag and leaves the blocks store alone.  A pointer-down on the same block changes
  nothing: \<open>connectingFrom\<close> stays set and no connection is created.
\<close>

theorem C4_connect:
  assumes "shiftKey e" and "connectingFrom (cstore a) = Some src" and "src \<noteq> []"
  shows "(ident (cblock g) \<noteq> src \<longrightarrow>
           fst (blockContainer_pointerdown toWorld cid e g a) = g
         \<and> bstore (snd (blockContainer_pointerdown toWorld cid e g a)) = bstore a
         \<and> connectingFrom (cstore (snd (blockContainer_pointerdown toWorld cid e g a))) = None
         \<and> list_ex (connects src (ident (cblock g)))
              (connections (cstore (snd (blockContainer_pointerdown toWorld cid e g a))))
         \<and> connections (cstore (snd (blockContainer_pointerdown toWorld cid e g a)))
             = (if list_ex (connects src (ident (cblock g))) (connections (cstore a))
                then connections (cstore a)
                else connections (cstore a) @
                       [\<lparr>conn_id = cid, from_id = src, to_id = ident (cblock g), ctype = Curved\<rparr>]))
       \<and> (ident (cblock g) = src \<longrightarrow> blockContainer_pointerdown toWorld cid e g a = (g, a))"
  using assms
  by (simp add: blockContainer_pointerdown_def Let_def on_connections_def setConnectingFrom_def
      addConnection_def connects_def)

theorem C4_connect_witness:
  "shiftKey (shift_pointer_at 310 10) \<and> connectingFrom (cstore connecting_from_a) = Some ''a''
   \<and> ident (cblock (init_closure note_b)) \<noteq> ''a''
   \<and> connectingFrom (cstore (snd (blockContainer_pointerdown plain_view ''c3''
         (shift_pointer_at 310 10) (init_closure note_b) connecting_from_a))) = None
   \<and> connections (cstore (snd (blockContainer_pointerdown plain_view ''c3''
         (shift_pointer_at 310 10) (init_closure note_b) connecting_from_a)))
       = [\<lparr>conn_id = ''c3'', from_id = ''a'', to_id = ''b'', ctype = Curved\<rparr>]"
  using C4_connect [of "shift_pointer_at 310 10" connecting_from_a "''a''" "init_closure note_b"
      plain_view "''c3''"]
  by (simp add: connecting_from_a_eval shift_pointer_at_def init_closure_def note_b_def
      createTextBlock_def initial_connections_def)

section \<open>Resizing\<close>

lemma square_app_eval:
  "square_app = \<lparr>bstore = \<lparr>blocks = [square_note], selectedBlockIds = {''s''}\<rparr>,
                  cstore = initial_connections\<rparr>"
  by (simp add: square_app_def square_note_def on_blocks_def initial_app_def initial_blocks_def
      addBlock_def createTextBlock_def resizeBlock_def selectBlock_def Let_def)

lemma resize_first_move:
  "viewport_pointermove toWorld e (handle_pointerdown toWorld h e0 (init_closure b)) a
   = (handle_pointerdown toWorld h e0 (init_closure b),
      handleResizeMove toWorld h e (handle_pointerdown toWorld h e0 (init_closure b)) a)"
  by (simp add: viewport_pointermove_def handlePointerMove_def handle_pointerdown_def
      init_closure_def Let_def)

text \<open>
  C5 at a failing input.  The note at (0,0) of size (100,100) has its right edge at
  x = 100.  Its top-left handle is pressed at (0,0) and the pointer moves to (120,0).
  The width stops at the floor 50, but the position follows the pointer to x = 120,
  past the place of the right edge.
\<close>

theorem C5_overshoot:
  "map position (blocks_with ''s'' (bstore (snd (viewport_pointermove plain_view (pointer_at 120 0)
      (handle_pointerdown plain_view H_tl (pointer_at 0 0) (init_closure square_note)) square_app))))
     = [\<lparr>xc = Fin 120, yc = Fin 0\<rparr>]
   \<and> map bsize (blocks_with ''s'' (bstore (snd (viewport_pointermove plain_view (pointer_at 120 0)
      (handle_pointerdown plain_view H_tl (pointer_at 0 0) (init_closure square_note)) square_app))))
     = [\<lparr>width = Fin 50, height = Fin 100\<rparr>]
   \<and> far_corner H_tl square_note = \<lparr>xc = Fin 100, yc = Fin 100\<rparr>"
  unfolding resize_first_move
  by (simp add: handleResizeMove_def handle_pointerdown_def init_closure_def
      Let_def on_blocks_def far_corner_def js_sub_def js_neq_def
      square_app_eval square_note_def createTextBlock_def plain_view_def view_toWorld_def
      pointer_at_def blocks_with_def moveBlock_def resizeBlock_def)

text \<open>
  C8 at a failing input.  The square note is shown: position (0,0), size (100,100),
  bottom-right corner at (100,100).  The top-left handle is pressed at (0,0) and the
  pointer moves to (70,0).  The width stops at 50 and the position goes to (70,0): the
  bottom-right corner is now at (120,100).  A move to (20,10) instead gives the size
  (80,90) and the position (20,10), with the bottom-right corner still at (100,100).
\<close>

theorem C8_far_corner_moves:
  "map isResizing (shown corner_pressed) = [True]
   \<and> map (far_corner H_tl) (blocks_with ''s'' (bstore (ui_app corner_pressed)))
       = [\<lparr>xc = Fin 100, yc = Fin 100\<rparr>]
   \<and> map bsize (blocks_with ''s'' (bstore (ui_app corner_dragged)))
       = [\<lparr>width = Fin 50, height = Fin 100\<rparr>]
   \<and> map position (blocks_with ''s'' (bstore (ui_app corner_dragged)))
       = [\<lparr>xc = Fin 70, yc = Fin 0\<rparr>]
   \<and> map (far_corner H_tl) (blocks_with ''s'' (bstore (ui_app corner_dragged)))
       = [\<lparr>xc = Fin 120, yc = Fin 100\<rparr>]
   \<and> map bsize (blocks_with ''s'' (bstore (ui_app corner_example)))
       = [\<lparr>width = Fin 80, height = Fin 90\<rparr>]
   \<and> map position (blocks_with ''s'' (bstore (ui_app corner_example)))
       = [\<lparr>xc = Fin 20, yc = Fin 10\<rparr>]
   \<and> map (far_corner H_tl) (blocks_with ''s'' (bstore (ui_app corner_example)))
       = [\<lparr>xc = Fin 100, yc = Fin 100\<rparr>]"
  by code_simp

section \<open>Dragging\<close>

text \<open>
  C6 at a failing input.  The square note is shown.  Its bottom-right handle is clicked
  at (98,98) without a move: \<open>handlePointerUp\<close> takes the closure's move and up listeners
  off the viewport, no store action is called, and the same closure stays on the stage.
  Then the pointer goes down on the body at (50,50), which arms the drag in that closure,
  and moves to (80,50): the block stays at (0,0).  The same drag right after the note is
  shown puts it at (30,0).
\<close>

theorem C6_drag_lost:
  "map isResizing (shown (ui_handle_pointerdown plain_view (Fin 1) H_br (pointer_at 98 98) 0
                            (mount square_app))) = [True]
   \<and> map move_attached (shown handle_clicked) = [False]
   \<and> map isDragging (retired drag_armed) = [True]
   \<and> map position (blocks_with ''s'' (bstore (ui_app drag_armed))) = [\<lparr>xc = Fin 0, yc = Fin 0\<rparr>]
   \<and> map position (blocks_with ''s'' (bstore (ui_app drag_moved))) = [\<lparr>xc = Fin 0, yc = Fin 0\<rparr>]
   \<and> map position (blocks_with ''s'' (bstore (ui_app fresh_drag_moved))) = [\<lparr>xc = Fin 30, yc = Fin 0\<rparr>]"
  by code_simp

section \<open>Editing and double click\<close>

text \<open>What the handlers do in general: Escape never writes to the store, every input
  event does, and a pointer-up that ends a click on a text block is read as a double
  click exactly when the time since the recorded click is below 300 ms.\<close>

lemma escape_leaves_store:
  "snd (textarea_keydown ''Escape'' shift g a) = a"
  by (simp add: textarea_keydown_def cancelAndExit_def split: option.splits)

lemma input_writes_store:
  assumes "textarea g = Some old"
  shows "snd (textarea_input v g a) = on_blocks (updateBlock (ident (cblock g)) (text_update g v)) a"
  using assms by (simp add: textarea_input_def)

lemma handlePointerUp_click:
  assumes "isDragging g" and "\<not> isResizing g" and "\<not> dragging g" and "btype (cblock g) = Text"
  shows "now - lastClickTime g < 300 \<Longrightarrow>
           editing (handlePointerUp now g) \<and> lastClickTime (handlePointerUp now g) = 0"
    and "300 \<le> now - lastClickTime g \<Longrightarrow>
           lastClickTime (handlePointerUp now g) = now \<and> editing (handlePointerUp now g) = editing g"
  using assms
  by (simp_all add: handlePointerUp_def Let_def doubleClickSpeed_def startEditingSystemBlock_def)

text \<open>
  C7 at a failing input.  The hello note is shown and clicked at the time
  1700000000000: a single click, recorded by the closure that received the pointer-down,
  which takes its up listener off the viewport in the same call; the pointer-down has
  called \<open>selectBlock\<close>, so a new closure is on the stage.  The note is clicked again 150 ms
  later: the new closure handles the pointer-up with its own \<open>lastClickTime = 0\<close>, reads a
  single click and records the time.  No closure is in edit mode.
\<close>

theorem C7_double_click_lost:
  "map lastClickTime (retired first_click) = [1700000000000]
   \<and> map up_attached (retired first_click) = [False]
   \<and> map lastClickTime (shown first_click) = [0]
   \<and> editing_closures second_click = []
   \<and> map lastClickTime (retired second_click) = [1700000000000, 1700000000150]
   \<and> map lastClickTime (shown second_click) = [0]"
  by code_simp


section \<open>Properties of the paste handlers\<close>

text \<open>
  C9, as stated, fails.  With the handler that creates blocks, a paste whose clipboard
  holds one file that is no image and no text leaves the stores as they were: no block
  is created.  With the handler that adds sprites, the paste of a 600 by 300 image
  leaves the stores as they were too: the image becomes a sprite of the viewport, not a
  block.
\<close>

theorem C9_counterexample:
  "handlePaste plain_view canvas_rect ''i'' (Some pdf_clipboard) initial_app = initial_app
   \<and> stores (handlePaste_sprites plain_view canvas_rect (Some image_clipboard)
        \<lparr>stores = initial_app, viewport_children = []\<rparr>) = initial_app"
  by (simp add: handlePaste_def handlePaste_sprites_def pdf_clipboard_def image_clipboard_def
      is_image_item_def paste_result_def Let_def)

lemma paste_image:
  assumes "find is_image_item (clip_items cb) = Some it"
    and "as_file it = Some (url, Loaded iw ih)"
    and "c = toWorld \<lparr>xc = js_div (width rect) (Fin 2), yc = js_div (height rect) (Fin 2)\<rparr>"
    and "h = js_div (Fin 300) (js_div (Fin (real iw)) (Fin (real ih)))"
  shows "handlePaste toWorld rect i (Some cb) a
         = on_blocks (addBlock (createImageBlock (js_sub (xc c) (Fin 150))
               (js_sub (yc c) (js_div h (Fin 2))) url (Fin 300) h i)) a"
  using assms by (simp add: handlePaste_def Let_def)

lemma paste_text_block:
  assumes "find is_image_item (clip_items cb) = None" and "text_data cb \<noteq> []"
    and "c = toWorld \<lparr>xc = js_div (width rect) (Fin 2), yc = js_div (height rect) (Fin 2)\<rparr>"
  shows "handlePaste toWorld rect i (Some cb) a
         = on_blocks (addBlock (createTextBlock (js_sub (xc c) (Fin 100)) (js_sub (yc c) (Fin 50))
             (text_data cb) i)) a"
  using assms by (simp add: handlePaste_def Let_def)

lemma paste_nothing:
  "handlePaste toWorld rect i None a = a"
  "find is_image_item (clip_items cb) = Some it \<Longrightarrow> as_file it = None \<Longrightarrow>
     handlePaste toWorld rect i (Some cb) a = a"
  "find is_image_item (clip_items cb) = Some it \<Longrightarrow> as_file it = Some (url, LoadFailed) \<Longrightarrow>
     handlePaste toWorld rect i (Some cb) a = a"
  "find is_image_item (clip_items cb) = None \<Longrightarrow> text_data cb = [] \<Longrightarrow>
     handlePaste toWorld rect i (Some cb) a = a"
  by (simp_all add: handlePaste_def Let_def)

lemma paste_at_most_one:
  "handlePaste toWorld rect i ev a = a \<or> (\<exists>b. handlePaste toWorld rect i ev a = on_blocks (addBlock b) a)"
  by (auto simp: handlePaste_def Let_def split: option.splits image_load.splits prod.splits)

lemma paste_sprites_stores:
  "stores (handlePaste_sprites toWorld window ev sc) = stores sc"
  by (simp add: handlePaste_sprites_def split: option.splits outcome.splits)

lemma image_height:
  assumes "0 < iw" and "0 < ih"
  shows "js_div (Fin 300) (js_div (Fin (real iw)) (Fin (real ih))) = Fin (300 * real ih / real iw)"
  using assms by simp

lemma image_block_geometry:
  assumes "0 < iw" and "0 < ih"
    and "b = createImageBlock (js_sub (Fin cx) (Fin 150))
               (js_sub (Fin cy) (js_div (Fin (300 * real ih / real iw)) (Fin 2))) url (Fin 300)
               (Fin (300 * real ih / real iw)) i"
  shows "bsize b = \<lparr>width = Fin 300, height = Fin (max (300 * real ih / real iw) 50)\<rparr>"
    and "50 \<le> 300 * real ih / real iw \<Longrightarrow> block_center b = \<lparr>xc = Fin cx, yc = Fin cy\<rparr>"
    and "50 \<le> 300 * real ih / real iw \<Longrightarrow>
           bsize b = \<lparr>width = Fin 300, height = Fin (300 * real ih / real iw)\<rparr>"
  using assms
  by (simp_all add: createImageBlock_def Let_def block_center_def js_sub_def max_def field_simps)

lemma text_block_geometry:
  "block_center (createTextBlock (js_sub (Fin cx) (Fin 100)) (js_sub (Fin cy) (Fin 50)) s i)
     = \<lparr>xc = Fin cx, yc = Fin cy\<rparr>
   \<and> bsize (createTextBlock (js_sub (Fin cx) (Fin 100)) (js_sub (Fin cy) (Fin 50)) s i)
     = \<lparr>width = Fin 200, height = Fin 100\<rparr>"
  by (simp add: createTextBlock_def block_center_def js_sub_def)

text \<open>
  C9, amended.  A paste event creates at most one block.  With the handler that creates
  blocks: when the first clipboard item of an image type yields a file that decodes to
  \<open>iw\<close> by \<open>ih\<close> pixels, exactly one image block is added, made by createImageBlock
  with width 300 and height \<open>300 / (iw / ih)\<close>; for positive \<open>iw\<close> and \<open>ih\<close> its size is
  300 by \<open>max (300 * ih / iw) 50\<close>, and when that height is not raised to 50 the block
  keeps the aspect ratio of the image and, the centre of the canvas being a finite world
  point, is centred there: an image of 600 by 300 gives a block of 300 by 150.  When no
  item is of an image type and the text is not empty, exactly one text block of 200 by
  100 is added, centred at the same point.  Every other paste adds no block: one
  without clipboard data, one whose first image item yields no file or fails to decode,
  and one with no image item and an empty text.  The handler that adds sprites never
  changes the stores.
\<close>

theorem C9_paste:
  assumes c: "c = toWorld \<lparr>xc = js_div (width rect) (Fin 2), yc = js_div (height rect) (Fin 2)\<rparr>"
    and h: "h = js_div (Fin 300) (js_div (Fin (real iw)) (Fin (real ih)))"
    and B: "B = createImageBlock (js_sub (xc c) (Fin 150)) (js_sub (yc c) (js_div h (Fin 2)))
                  url (Fin 300) h i"
    and T: "T = createTextBlock (js_sub (xc c) (Fin 100)) (js_sub (yc c) (Fin 50)) (text_data cb) i"
  shows "(find is_image_item (clip_items cb) = Some it \<and> as_file it = Some (url, Loaded iw ih) \<longrightarrow>
            handlePaste toWorld rect i (Some cb) a = on_blocks (addBlock B) a
          \<and> (0 < iw \<and> 0 < ih \<longrightarrow>
                bsize B = \<lparr>width = Fin 300, height = Fin (max (300 * real ih / real iw) 50)\<rparr>)
          \<and> (0 < iw \<and> 0 < ih \<and> 50 \<le> 300 * real ih / real iw \<and> c = \<lparr>xc = Fin cx, yc = Fin cy\<rparr> \<longrightarrow>
                block_center B = c
              \<and> bsize B = \<lparr>width = Fin 300, height = Fin (300 * real ih / real iw)\<rparr>))
       \<and> (find is_image_item (clip_items cb) = None \<and> text_data cb \<noteq> [] \<longrightarrow>
            handlePaste toWorld rect i (Some cb) a = on_blocks (addBlock T) a
          \<and> bsize T = \<lparr>width = Fin 200, height = Fin 100\<rparr>
          \<and> (c = \<lparr>xc = Fin cx, yc = Fin cy\<rparr> \<longrightarrow> block_center T = c))
       \<and> handlePaste toWorld rect i None a = a
       \<and> (find is_image_item (clip_items cb) = Some it
            \<and> (as_file it = None \<or> as_file it = Some (url, LoadFailed)) \<longrightarrow>
            handlePaste toWorld rect i (Some cb) a = a)
       \<and> (find is_image_item (clip_items cb) = None \<and> text_data cb = [] \<longrightarrow>
            handlePaste toWorld rect i (Some cb) a = a)
       \<and> (handlePaste toWorld rect i ev a = a
            \<or> (\<exists>b. handlePaste toWorld rect i ev a = on_blocks (addBlock b) a))
       \<and> stores (handlePaste_sprites toWorld window ev sc) = stores sc"
proof -
  have img: "handlePaste toWorld rect i (Some cb) a = on_blocks (addBlock B) a"
    if "find is_image_item (clip_items cb) = Some it" and "as_file it = Some (url, Loaded iw ih)"
    using that unfolding B by (rule paste_image [where toWorld = toWorld, OF _ _ c h])
  have size: "bsize B = \<lparr>width = Fin 300, height = Fin (max (300 * real ih / real iw) 50)\<rparr>"
    if "0 < iw" and "0 < ih"
    using that by (simp add: B h createImageBlock_def Let_def max_def field_simps)
  have centre: "block_center B = c \<and> bsize B = \<lparr>width = Fin 300, height = Fin (300 * real ih / real iw)\<rparr>"
    if "0 < iw" and "0 < ih" and "50 \<le> 300 * real ih / real iw" and "c = \<lparr>xc = Fin cx, yc = Fin cy\<rparr>"
  proof -
    have hf: "h = Fin (300 * real ih / real iw)"
      unfolding h using that(1,2) by (rule image_height)
    have Bf: "B = createImageBlock (js_sub (Fin cx) (Fin 150))
               (js_sub (Fin cy) (js_div (Fin (300 * real ih / real iw)) (Fin 2))) url (Fin 300)
               (Fin (300 * real ih / real iw)) i"
      by (simp add: B hf that(4))
    show ?thesis
      using image_block_geometry(2,3) [OF that(1,2) Bf that(3)] that(4) by simp
  qed
  have tx: "handlePaste toWorld rect i (Some cb) a = on_blocks (addBlock T) a"
    if "find is_image_item (clip_items cb) = None" and "text_data cb \<noteq> []"
    using that unfolding T by (rule paste_text_block [where toWorld = toWorld, OF _ _ c])
  have tsize: "bsize T = \<lparr>width = Fin 200, height = Fin 100\<rparr>"
    by (simp add: T createTextBlock_def)
  have tcentre: "block_center T = c" if "c = \<lparr>xc = Fin cx, yc = Fin cy\<rparr>"
    using text_block_geometry [of cx cy "text_data cb" i] that by (simp add: T)
  have none: "handlePaste toWorld rect i (Some cb) a = a"
    if "find is_image_item (clip_items cb) = Some it"
      and "as_file it = None \<or> as_file it = Some (url, LoadFailed)"
    using that paste_nothing(2,3) by blast
  have p1: "find is_image_item (clip_items cb) = Some it \<and> as_file it = Some (url, Loaded iw ih) \<longrightarrow>
            handlePaste toWorld rect i (Some cb) a = on_blocks (addBlock B) a
          \<and> (0 < iw \<and> 0 < ih \<longrightarrow>
                bsize B = \<lparr>width = Fin 300, height = Fin (max (300 * real ih / real iw) 50)\<rparr>)
          \<and> (0 < iw \<and> 0 < ih \<and> 50 \<le> 300 * real ih / real iw \<and> c = \<lparr>xc = Fin cx, yc = Fin cy\<rparr> \<longrightarrow>
                block_center B = c
              \<and> bsize B = \<lparr>width = Fin 300, height = Fin (300 * real ih / real iw)\<rparr>)"
    using img size centre by simp
  have p2: "find is_image_item (clip_items cb) = None \<and> text_data cb \<noteq> [] \<longrightarrow>
            handlePaste toWorld rect i (Some cb) a = on_blocks (addBlock T) a
          \<and> bsize T = \<lparr>width = Fin 200, height = Fin 100\<rparr>
          \<and> (c = \<lparr>xc = Fin cx, yc = Fin cy\<rparr> \<longrightarrow> block_center T = c)"
    using tx tsize tcentre by simp
  have p3: "handlePaste toWorld rect i None a = a"
    by (rule paste_nothing(1))
  have p4: "find is_image_item (clip_items cb) = Some it
            \<and> (as_file it = None \<or> as_file it = Some (url, LoadFailed)) \<longrightarrow>
            handlePaste toWorld rect i (Some cb) a = a"
    using none by simp
  have p5: "find is_image_item (clip_items cb) = None \<and> text_data cb = [] \<longrightarrow>
            handlePaste toWorld rect i (Some cb) a = a"
    using paste_nothing(4) [of cb toWorld rect i a] by simp
  have p6: "handlePaste toWorld rect i ev a = a
            \<or> (\<exists>b. handlePaste toWorld rect i ev a = on_blocks (addBlock b) a)"
    by (rule paste_at_most_one)
  have p7: "stores (handlePaste_sprites toWorld window ev sc) = stores sc"
    by (rule paste_sprites_stores)
  from p1 p2 p3 p4 p5 p6 p7 show ?thesis
    by (intro conjI)
qed

lemma image_found:
  "find is_image_item (clip_items image_clipboard)
   = Some \<lparr>item_kind = ''file'', item_type = ''image/png'', as_file = Some (''blob:1'', Loaded 600 300)\<rparr>"
  by (simp add: image_clipboard_def is_image_item_def)

lemma empty_image_found:
  "find is_image_item (clip_items empty_image_clipboard)
   = Some \<lparr>item_kind = ''file'', item_type = ''image/svg+xml'', as_file = Some (''blob:2'', Loaded 0 0)\<rparr>"
  by (simp add: empty_image_clipboard_def is_image_item_def)

lemma text_found:
  "find is_image_item (clip_items text_clipboard) = None \<and> text_data text_clipboard = ''remember''"
  by (simp add: text_clipboard_def is_image_item_def)

lemma pdf_found:
  "find is_image_item (clip_items pdf_clipboard) = None \<and> text_data pdf_clipboard = []"
  by (simp add: pdf_clipboard_def is_image_item_def)

lemma canvas_center:
  "plain_view \<lparr>xc = js_div (width canvas_rect) (Fin 2), yc = js_div (height canvas_rect) (Fin 2)\<rparr>
   = \<lparr>xc = Fin 500, yc = Fin 400\<rparr>"
  by (simp add: plain_view_def view_toWorld_def canvas_rect_def js_sub_def)

theorem C9_paste_witness:
  "handlePaste plain_view canvas_rect ''i'' (Some image_clipboard) initial_app
     = on_blocks (addBlock (createImageBlock (Fin 350) (Fin 325) ''blob:1'' (Fin 300) (Fin 150) ''i''))
         initial_app
   \<and> bsize (createImageBlock (Fin 350) (Fin 325) ''blob:1'' (Fin 300) (Fin 150) ''i'')
       = \<lparr>width = Fin 300, height = Fin 150\<rparr>
   \<and> block_center (createImageBlock (Fin 350) (Fin 325) ''blob:1'' (Fin 300) (Fin 150) ''i'')
       = \<lparr>xc = Fin 500, yc = Fin 400\<rparr>
   \<and> handlePaste plain_view canvas_rect ''j'' (Some text_clipboard) initial_app
     = on_blocks (addBlock (createTextBlock (Fin 400) (Fin 350) ''remember'' ''j'')) initial_app
   \<and> block_center (createTextBlock (Fin 400) (Fin 350) ''remember'' ''j'') = \<lparr>xc = Fin 500, yc = Fin 400\<rparr>
   \<and> handlePaste plain_view canvas_rect ''k'' (Some pdf_clipboard) initial_app = initial_app
   \<and> handlePaste plain_view canvas_rect ''l'' (Some empty_image_clipboard) initial_app
     = on_blocks (addBlock (createImageBlock (Fin 350) NaN ''blob:2'' (Fin 300) NaN ''l'')) initial_app"
proof -
  note img = C9_paste [where toWorld = plain_view and rect = canvas_rect and cb = image_clipboard
      and it = "\<lparr>item_kind = ''file'', item_type = ''image/png'', as_file = Some (''blob:1'', Loaded 600 300)\<rparr>"
      and url = "''blob:1''" and iw = 600 and ih = 300 and i = "''i''" and a = initial_app
      and cx = 500 and cy = 400,
      OF canvas_center [symmetric] refl refl refl]
  note txb = C9_paste [where toWorld = plain_view and rect = canvas_rect and cb = text_clipboard
      and i = "''j''" and a = initial_app and cx = 500 and cy = 400,
      OF canvas_center [symmetric] refl refl refl]
  note pdf = C9_paste [where toWorld = plain_view and rect = canvas_rect and cb = pdf_clipboard
      and i = "''k''" and a = initial_app,
      OF canvas_center [symmetric] refl refl refl]
  note emp = C9_paste [where toWorld = plain_view and rect = canvas_rect and cb = empty_image_clipboard
      and it = "\<lparr>item_kind = ''file'', item_type = ''image/svg+xml'', as_file = Some (''blob:2'', Loaded 0 0)\<rparr>"
      and url = "''blob:2''" and iw = 0 and ih = 0 and i = "''l''" and a = initial_app,
      OF canvas_center [symmetric] refl refl refl]
  from img txb pdf emp show ?thesis
    by (simp add: image_found text_found pdf_found empty_image_found js_sub_def)
qed

end
